theory Spec2Isabelle
  imports Main "HOL-Library.Word" "HOL-Library.Signed_Division"
begin

section \<open>Reconciling the PodDisruptionBudget of a Redis cluster\<close>

text \<open>
  A shallow embedding of \<^verbatim>\<open>k8sutils/poddisruption.go\<close>. Every Go function of the file
  but the logger is a HOL function of the same name. A Go function that talks to a collaborator (the
  Kubernetes client, the last-applied annotator, the patch maker) returns, next to its
  result, the list of collaborator calls it made, in order. Errors are values: a Go
  \<^verbatim>\<open>error\<close> result is \<open>error + unit\<close>, and a nil-pointer panic is the error
  \<open>NilPointerDereference\<close>. Logging is left out.
\<close>

subsection \<open>Data model\<close>

type_synonym int32 = "32 word"
type_synonym string_map = "string \<rightharpoonup> string"

text \<open>
  Go errors. \<open>NotFound\<close> is the class that \<^verbatim>\<open>errors.IsNotFound\<close> recognises; the other
  constructors are the remaining classes of section 7 of the specification.
\<close>

datatype error =
    NotFound string
  | Conflict string
  | BackendError string
  | SerializationFailure string
  | NilPointerDereference

fun IsNotFound :: "error \<Rightarrow> bool" where
  "IsNotFound (NotFound _) = True"
| "IsNotFound _ = False"

text \<open>\<^verbatim>\<open>intstr.IntOrString\<close>: a struct with a type tag and both payloads.\<close>

datatype intstr_Type = intstr_Int | intstr_String

record IntOrString =
  Type :: intstr_Type
  IntVal :: int32
  StrVal :: string

datatype OwnerReference = OwnerReference (owner_kind: string) (owner_name: string) (owner_uid: string)

text \<open>
  \<^verbatim>\<open>metav1.ObjectMeta\<close>, with the fields the file reads or writes. The creation timestamp
  and the managed fields are opaque to this code: they are only copied.
\<close>

record ObjectMeta =
  Name :: string
  Namespace :: string
  Labels :: string_map
  Annotations :: string_map
  ResourceVersion :: string
  CreationTimestamp :: string
  ManagedFields :: "string list"
  OwnerReferences :: "OwnerReference list"

record PodDisruptionBudgetSpec =
  Selector :: string_map
  MinAvailable :: "IntOrString option"
  MaxUnavailable :: "IntOrString option"

record PodDisruptionBudget =
  ObjectMeta :: ObjectMeta
  Spec :: PodDisruptionBudgetSpec

text \<open>
  The custom resource \<^verbatim>\<open>redisv1beta1.RedisCluster\<close>, with the fields the file reads. Its
  declaration is in \<^verbatim>\<open>api/v1beta1\<close>; the pointers there (\<^verbatim>\<open>*int32\<close>, and the pointer to the
  budget parameters) are options here, \<open>None\<close> for nil.
\<close>

record RedisPodDisruptionBudget =
  Enabled :: bool
  pdb_MinAvailable :: "int32 option"
  pdb_MaxUnavailable :: "int32 option"

record RedisLeader =
  leader_PodDisruptionBudget :: "RedisPodDisruptionBudget option"

record RedisClusterSpec =
  Size :: "int32 option"
  RedisLeader :: RedisLeader

record RedisCluster =
  cr_ObjectMeta :: ObjectMeta
  cr_Spec :: RedisClusterSpec

subsection \<open>Collaborators\<close>

text \<open>
  The helpers of the package that live in other files. \<open>getRedisLabels\<close>,
  \<open>generateStatefulSetsAnots\<close> and \<open>redisClusterAsOwner\<close> are parameters: nothing is
  assumed about the labels, the annotations or the owner reference they produce, except
  that the annotations are a map and not nil (\<^verbatim>\<open>patchPodDisruptionBudget\<close> writes into
  that map).
\<close>

record helpers =
  getRedisLabels :: "string \<Rightarrow> string \<Rightarrow> string \<Rightarrow> string_map"
  generateStatefulSetsAnots :: string_map
  redisClusterAsOwner :: "RedisCluster \<Rightarrow> OwnerReference"

text \<open>
  The environment of one invocation: what the Kubernetes client answers to each request,
  what the annotator's serialisation of an object gives, and what the patch maker says
  about a stored and a new object (\<open>Inr True\<close> for a patch that is empty).
\<close>

record env =
  client_Get :: "string \<Rightarrow> string \<Rightarrow> error + PodDisruptionBudget"
  client_Create :: "string \<Rightarrow> PodDisruptionBudget \<Rightarrow> error + unit"
  client_Update :: "string \<Rightarrow> PodDisruptionBudget \<Rightarrow> error + unit"
  client_Delete :: "string \<Rightarrow> string \<Rightarrow> error + unit"
  annotator_Serialize :: "PodDisruptionBudget \<Rightarrow> error + string"
  patchMaker_Calculate :: "PodDisruptionBudget \<Rightarrow> PodDisruptionBudget \<Rightarrow> error + bool"

text \<open>The calls made to the collaborators, with their arguments.\<close>

datatype call =
    GetCall string string
  | CalculateCall PodDisruptionBudget PodDisruptionBudget
  | SetLastAppliedCall PodDisruptionBudget
  | CreateCall string PodDisruptionBudget
  | UpdateCall string PodDisruptionBudget
  | DeleteCall string string

fun is_write :: "call \<Rightarrow> bool" where
  "is_write (CreateCall _ _) = True"
| "is_write (UpdateCall _ _) = True"
| "is_write (DeleteCall _ _) = True"
| "is_write _ = False"

definition writes :: "call list \<Rightarrow> call list" where
  "writes cs = filter is_write cs"

subsection \<open>Helpers from outside the file\<close>

text \<open>
  Modelled from the spec: \<^verbatim>\<open>generateObjectMetaInformation\<close> is in another file of the
  package. Section 6 (ObjectMetaBuilder) has it supply the name, the namespace and the
  labels of the object; the annotations are its fourth argument.
\<close>

definition generateObjectMetaInformation ::
    "string \<Rightarrow> string \<Rightarrow> string_map \<Rightarrow> string_map \<Rightarrow> ObjectMeta" where
  "generateObjectMetaInformation name namespace labels annotations =
     \<lparr>Name = name, Namespace = namespace, Labels = labels, Annotations = annotations,
      ResourceVersion = [], CreationTimestamp = [], ManagedFields = [],
      OwnerReferences = []\<rparr>"

text \<open>
  Modelled from the spec: \<^verbatim>\<open>LabelSelectors\<close> is in another file of the package. Section 3
  has the selector of the policy be the label map itself.
\<close>

definition LabelSelectors :: "string_map \<Rightarrow> string_map" where
  "LabelSelectors labels = labels"

text \<open>
  Modelled from the spec: \<^verbatim>\<open>AddOwnerRefToObject\<close> is in another file of the package.
  Section 9 has the owner reference be a relation value in the metadata of the object.
\<close>

definition AddOwnerRefToObject :: "PodDisruptionBudget \<Rightarrow> OwnerReference \<Rightarrow> PodDisruptionBudget" where
  "AddOwnerRefToObject obj r =
     obj\<lparr>ObjectMeta := (ObjectMeta obj)\<lparr>OwnerReferences := OwnerReferences (ObjectMeta obj) @ [r]\<rparr>\<rparr>"

text \<open>
  Modelled from the spec: the annotator \<^verbatim>\<open>patch.DefaultAnnotator\<close> belongs to the patch
  library, outside the repository. Section 4.4 has it serialise the object and write the
  result as one annotation value on the object, in place, and fail only when the
  serialisation fails. The key is the library's.
\<close>

definition LastAppliedConfig :: string where
  "LastAppliedConfig = ''banzaicloud.com/last-applied''"

definition SetOriginalConfiguration :: "PodDisruptionBudget \<Rightarrow> string \<Rightarrow> PodDisruptionBudget" where
  "SetOriginalConfiguration obj s =
     obj\<lparr>ObjectMeta := (ObjectMeta obj)
       \<lparr>Annotations := (Annotations (ObjectMeta obj))(LastAppliedConfig \<mapsto> s)\<rparr>\<rparr>"

definition SetLastAppliedAnnotation ::
    "env \<Rightarrow> PodDisruptionBudget \<Rightarrow> (error + PodDisruptionBudget) \<times> call list" where
  "SetLastAppliedAnnotation e obj =
     (case annotator_Serialize e obj of
        Inl err \<Rightarrow> (Inl err, [SetLastAppliedCall obj])
      | Inr s \<Rightarrow> (Inr (SetOriginalConfiguration obj s), [SetLastAppliedCall obj]))"

subsection \<open>The functions of the file\<close>

text \<open>Go's \<^verbatim>\<open>/\<close> on \<^verbatim>\<open>int32\<close>: the quotient truncated towards zero.\<close>

definition int32_div :: "int32 \<Rightarrow> int32 \<Rightarrow> int32" where
  "int32_div a b = word_of_int (sint a sdiv sint b)"

definition intstr_FromInt :: "int32 \<Rightarrow> IntOrString" where
  "intstr_FromInt v = \<lparr>Type = intstr_Int, IntVal = v, StrVal = []\<rparr>"

text \<open>
  \<^verbatim>\<open>generatePodDisruptionBudgetDef\<close>. Dereferencing a nil \<^verbatim>\<open>pdbParams\<close> or a nil
  \<^verbatim>\<open>cr.Spec.Size\<close> panics.
\<close>

definition generatePodDisruptionBudgetDef ::
    "helpers \<Rightarrow> RedisCluster \<Rightarrow> string \<Rightarrow> ObjectMeta \<Rightarrow> RedisPodDisruptionBudget option
       \<Rightarrow> error + PodDisruptionBudget" where
  "generatePodDisruptionBudgetDef h cr role pdbMeta pdbParams =
     (let pdbTemplate =
            \<lparr>ObjectMeta = pdbMeta,
             Spec = \<lparr>Selector = LabelSelectors
                        [''app'' \<mapsto> Name (cr_ObjectMeta cr), ''role'' \<mapsto> role],
                     MinAvailable = None, MaxUnavailable = None\<rparr>\<rparr>
      in case pdbParams of
           None \<Rightarrow> Inl NilPointerDereference
         | Some p \<Rightarrow>
             (let t1 = (case pdb_MinAvailable p of
                          Some m \<Rightarrow> pdbTemplate\<lparr>Spec := (Spec pdbTemplate)
                                      \<lparr>MinAvailable := Some (intstr_FromInt m)\<rparr>\<rparr>
                        | None \<Rightarrow> pdbTemplate);
                  t2 = (case pdb_MaxUnavailable p of
                          Some m \<Rightarrow> t1\<lparr>Spec := (Spec t1)
                                      \<lparr>MaxUnavailable := Some (intstr_FromInt m)\<rparr>\<rparr>
                        | None \<Rightarrow> t1)
              in if MaxUnavailable (Spec t2) = None \<and> MinAvailable (Spec t2) = None
                 then (case Size (cr_Spec cr) of
                         None \<Rightarrow> Inl NilPointerDereference
                       | Some n \<Rightarrow>
                           Inr (AddOwnerRefToObject
                                  (t2\<lparr>Spec := (Spec t2)
                                      \<lparr>MinAvailable := Some (intstr_FromInt (int32_div n 2 + 1))\<rparr>\<rparr>)
                                  (redisClusterAsOwner h cr)))
                 else Inr (AddOwnerRefToObject t2 (redisClusterAsOwner h cr))))"

text \<open>The five wrappers of the client: one request each.\<close>

definition GetPodDisruptionBudget ::
    "env \<Rightarrow> string \<Rightarrow> string \<Rightarrow> (error + PodDisruptionBudget) \<times> call list" where
  "GetPodDisruptionBudget e namespace pdb =
     (case client_Get e namespace pdb of
        Inl err \<Rightarrow> (Inl err, [GetCall namespace pdb])
      | Inr statefulInfo \<Rightarrow> (Inr statefulInfo, [GetCall namespace pdb]))"

definition createPodDisruptionBudget ::
    "env \<Rightarrow> string \<Rightarrow> PodDisruptionBudget \<Rightarrow> (error + unit) \<times> call list" where
  "createPodDisruptionBudget e namespace pdb =
     (case client_Create e namespace pdb of
        Inl err \<Rightarrow> (Inl err, [CreateCall namespace pdb])
      | Inr _ \<Rightarrow> (Inr (), [CreateCall namespace pdb]))"

definition updatePodDisruptionBudget ::
    "env \<Rightarrow> string \<Rightarrow> PodDisruptionBudget \<Rightarrow> (error + unit) \<times> call list" where
  "updatePodDisruptionBudget e namespace pdb =
     (case client_Update e namespace pdb of
        Inl err \<Rightarrow> (Inl err, [UpdateCall namespace pdb])
      | Inr _ \<Rightarrow> (Inr (), [UpdateCall namespace pdb]))"

definition deletePodDisruptionBudget ::
    "env \<Rightarrow> string \<Rightarrow> string \<Rightarrow> (error + unit) \<times> call list" where
  "deletePodDisruptionBudget e namespace pdbName =
     (case client_Delete e namespace pdbName of
        Inl err \<Rightarrow> (Inl err, [DeleteCall namespace pdbName])
      | Inr _ \<Rightarrow> (Inr (), [DeleteCall namespace pdbName]))"

text \<open>
  The loop of \<^verbatim>\<open>patchPodDisruptionBudget\<close> over the annotations of the stored object: a
  key that the new object does not have is written to it with the stored value. The
  result does not depend on the order in which Go visits the keys.
\<close>

definition mergeAnnotations :: "string_map \<Rightarrow> string_map \<Rightarrow> string_map" where
  "mergeAnnotations stored new =
     (\<lambda>key. case new key of Some v \<Rightarrow> Some v | None \<Rightarrow> stored key)"

text \<open>The three assignments of the backend-owned fields, then the loop.\<close>

definition copyStoredFields :: "PodDisruptionBudget \<Rightarrow> PodDisruptionBudget \<Rightarrow> PodDisruptionBudget" where
  "copyStoredFields storedPdb newPdb =
     newPdb\<lparr>ObjectMeta := (ObjectMeta newPdb)
       \<lparr>ResourceVersion := ResourceVersion (ObjectMeta storedPdb),
        CreationTimestamp := CreationTimestamp (ObjectMeta storedPdb),
        ManagedFields := ManagedFields (ObjectMeta storedPdb),
        Annotations := mergeAnnotations (Annotations (ObjectMeta storedPdb))
                         (Annotations (ObjectMeta newPdb))\<rparr>\<rparr>"

definition patchPodDisruptionBudget ::
    "env \<Rightarrow> PodDisruptionBudget \<Rightarrow> PodDisruptionBudget \<Rightarrow> string \<Rightarrow> (error + unit) \<times> call list" where
  "patchPodDisruptionBudget e storedPdb newPdb namespace =
     (case patchMaker_Calculate e storedPdb newPdb of
        Inl err \<Rightarrow> (Inl err, [CalculateCall storedPdb newPdb])
      | Inr isEmpty \<Rightarrow>
          if \<not> isEmpty then
            (case SetLastAppliedAnnotation e (copyStoredFields storedPdb newPdb) of
               (Inl err, cs) \<Rightarrow> (Inl err, CalculateCall storedPdb newPdb # cs)
             | (Inr newPdb', cs) \<Rightarrow>
                 (case updatePodDisruptionBudget e namespace newPdb' of
                    (r, cs') \<Rightarrow> (r, CalculateCall storedPdb newPdb # cs @ cs')))
          else (Inr (), [CalculateCall storedPdb newPdb]))"

text \<open>
  \<^verbatim>\<open>CreateOrUpdatePodDisruptionBudget\<close>. When the fetch fails the object is stamped first,
  whatever the error is; the inner \<^verbatim>\<open>err\<close> of the stamping shadows the fetch error only
  inside its own \<^verbatim>\<open>if\<close>.
\<close>

definition CreateOrUpdatePodDisruptionBudget ::
    "env \<Rightarrow> PodDisruptionBudget \<Rightarrow> (error + unit) \<times> call list" where
  "CreateOrUpdatePodDisruptionBudget e pdbDef =
     (case GetPodDisruptionBudget e (Namespace (ObjectMeta pdbDef)) (Name (ObjectMeta pdbDef)) of
        (Inl err, cs) \<Rightarrow>
          (case SetLastAppliedAnnotation e pdbDef of
             (Inl err', cs1) \<Rightarrow> (Inl err', cs @ cs1)
           | (Inr pdbDef', cs1) \<Rightarrow>
               if IsNotFound err then
                 (case createPodDisruptionBudget e (Namespace (ObjectMeta pdbDef')) pdbDef' of
                    (r, cs2) \<Rightarrow> (r, cs @ cs1 @ cs2))
               else (Inl err, cs @ cs1))
      | (Inr storedPDB, cs) \<Rightarrow>
          (case patchPodDisruptionBudget e storedPDB pdbDef (Namespace (ObjectMeta pdbDef)) of
             (r, cs2) \<Rightarrow> (r, cs @ cs2)))"

text \<open>The condition of line 19: the budget parameters of the leader are set and enabled.\<close>

definition pdbEnabled :: "RedisCluster \<Rightarrow> bool" where
  "pdbEnabled cr =
     (case leader_PodDisruptionBudget (RedisLeader (cr_Spec cr)) of
        None \<Rightarrow> False
      | Some p \<Rightarrow> Enabled p)"

definition pdbName :: "RedisCluster \<Rightarrow> string \<Rightarrow> string" where
  "pdbName cr role = Name (cr_ObjectMeta cr) @ ''-'' @ role"

text \<open>Lines 20 to 22: the desired definition of the object.\<close>

definition pdbDef :: "helpers \<Rightarrow> RedisCluster \<Rightarrow> string \<Rightarrow> error + PodDisruptionBudget" where
  "pdbDef h cr role =
     (let labels = getRedisLabels h (Name (cr_ObjectMeta cr)) ''cluster'' role;
          pdbMeta = generateObjectMetaInformation (pdbName cr role)
                      (Namespace (cr_ObjectMeta cr)) labels (generateStatefulSetsAnots h)
      in generatePodDisruptionBudgetDef h cr role pdbMeta
           (leader_PodDisruptionBudget (RedisLeader (cr_Spec cr))))"

definition ReconcileRedisPodDisruptionBudget ::
    "env \<Rightarrow> helpers \<Rightarrow> RedisCluster \<Rightarrow> string \<Rightarrow> (error + unit) \<times> call list" where
  "ReconcileRedisPodDisruptionBudget e h cr role =
     (if pdbEnabled cr then
        (case pdbDef h cr role of
           Inl err \<Rightarrow> (Inl err, [])
         | Inr d \<Rightarrow> CreateOrUpdatePodDisruptionBudget e d)
      else
        (case GetPodDisruptionBudget e (Namespace (cr_ObjectMeta cr)) (pdbName cr role) of
           (Inr _, cs) \<Rightarrow>
             (case deletePodDisruptionBudget e (Namespace (cr_ObjectMeta cr)) (pdbName cr role) of
                (r, cs') \<Rightarrow> (r, cs @ cs'))
         | (Inl err, cs) \<Rightarrow>
             if IsNotFound err then (Inr (), cs) else (Inl err, cs)))"

subsection \<open>Concrete inputs\<close>

text \<open>
  A cluster \<open>redis\<close> of three nodes in namespace \<open>prod\<close>, its budget enabled with no bound
  set; the same cluster with the budget disabled, and with no budget configured.
\<close>

definition ex_helpers :: helpers where
  "ex_helpers =
     \<lparr>getRedisLabels = (\<lambda>name setup role. [''app'' \<mapsto> name, ''redis_setup_type'' \<mapsto> setup, ''role'' \<mapsto> role]),
      generateStatefulSetsAnots = [''redis.opstreelabs.in'' \<mapsto> ''true''],
      redisClusterAsOwner = (\<lambda>cr. OwnerReference ''RedisCluster'' (Name (cr_ObjectMeta cr)) ''uid-1'')\<rparr>"

definition ex_meta :: ObjectMeta where
  "ex_meta =
     \<lparr>Name = ''redis'', Namespace = ''prod'', Labels = Map.empty, Annotations = Map.empty,
      ResourceVersion = [], CreationTimestamp = [], ManagedFields = [], OwnerReferences = []\<rparr>"

definition ex_params :: "int32 option \<Rightarrow> int32 option \<Rightarrow> bool \<Rightarrow> RedisPodDisruptionBudget" where
  "ex_params mn mx en = \<lparr>Enabled = en, pdb_MinAvailable = mn, pdb_MaxUnavailable = mx\<rparr>"

definition ex_cluster :: "RedisPodDisruptionBudget option \<Rightarrow> RedisCluster" where
  "ex_cluster p =
     \<lparr>cr_ObjectMeta = ex_meta,
      cr_Spec = \<lparr>Size = Some 3, RedisLeader = \<lparr>leader_PodDisruptionBudget = p\<rparr>\<rparr>\<rparr>"

definition ex_cr :: RedisCluster where
  "ex_cr = ex_cluster (Some (ex_params None None True))"

definition ex_cr_disabled :: RedisCluster where
  "ex_cr_disabled = ex_cluster (Some (ex_params None None False))"

definition ex_cr_unconfigured :: RedisCluster where
  "ex_cr_unconfigured = ex_cluster None"

text \<open>The desired definition of the leader's budget for \<open>ex_cr\<close>.\<close>

definition ex_def :: PodDisruptionBudget where
  "ex_def =
     \<lparr>ObjectMeta =
        \<lparr>Name = ''redis-leader'', Namespace = ''prod'',
         Labels = [''app'' \<mapsto> ''redis'', ''redis_setup_type'' \<mapsto> ''cluster'', ''role'' \<mapsto> ''leader''],
         Annotations = [''redis.opstreelabs.in'' \<mapsto> ''true''],
         ResourceVersion = [], CreationTimestamp = [], ManagedFields = [],
         OwnerReferences = [OwnerReference ''RedisCluster'' ''redis'' ''uid-1'']\<rparr>,
      Spec = \<lparr>Selector = [''app'' \<mapsto> ''redis'', ''role'' \<mapsto> ''leader''],
              MinAvailable = Some \<lparr>Type = intstr_Int, IntVal = 2, StrVal = []\<rparr>,
              MaxUnavailable = None\<rparr>\<rparr>"

text \<open>
  A stored object: written earlier with an older snapshot, given a resource version, a
  creation time and managed fields by the backend, and an annotation by somebody else.
\<close>

definition ex_stored :: PodDisruptionBudget where
  "ex_stored =
     \<lparr>ObjectMeta =
        \<lparr>Name = ''redis-leader'', Namespace = ''prod'',
         Labels = [''app'' \<mapsto> ''redis'', ''redis_setup_type'' \<mapsto> ''cluster'', ''role'' \<mapsto> ''leader''],
         Annotations = [''redis.opstreelabs.in'' \<mapsto> ''true'', ''team'' \<mapsto> ''payments'',
                        LastAppliedConfig \<mapsto> ''old-snapshot''],
         ResourceVersion = ''41'', CreationTimestamp = ''2021-03-01T10:00:00Z'',
         ManagedFields = [''kube-controller-manager''],
         OwnerReferences = [OwnerReference ''RedisCluster'' ''redis'' ''uid-1'']\<rparr>,
      Spec = \<lparr>Selector = [''app'' \<mapsto> ''redis'', ''role'' \<mapsto> ''leader''],
              MinAvailable = Some \<lparr>Type = intstr_Int, IntVal = 1, StrVal = []\<rparr>,
              MaxUnavailable = None\<rparr>\<rparr>"

text \<open>
  Environments. In \<open>ex_env\<close> the object is absent and every other request succeeds; the
  others differ from it in one or two answers.
\<close>

definition ex_env :: env where
  "ex_env =
     \<lparr>client_Get = (\<lambda>namespace name. Inl (NotFound name)),
      client_Create = (\<lambda>namespace obj. Inr ()),
      client_Update = (\<lambda>namespace obj. Inr ()),
      client_Delete = (\<lambda>namespace name. Inr ()),
      annotator_Serialize = (\<lambda>obj. Inr ''new-snapshot''),
      patchMaker_Calculate = (\<lambda>stored new. Inr False)\<rparr>"

definition ex_env_present :: env where
  "ex_env_present = ex_env\<lparr>client_Get := (\<lambda>namespace name. Inr ex_stored)\<rparr>"

definition ex_env_unchanged :: env where
  "ex_env_unchanged = ex_env_present\<lparr>patchMaker_Calculate := (\<lambda>stored new. Inr True)\<rparr>"

definition ex_env_timeout :: env where
  "ex_env_timeout = ex_env\<lparr>client_Get := (\<lambda>namespace name. Inl (BackendError ''timeout''))\<rparr>"

definition ex_env_unserializable :: env where
  "ex_env_unserializable =
     ex_env\<lparr>annotator_Serialize := (\<lambda>obj. Inl (SerializationFailure ''marshal''))\<rparr>"

definition ex_env_present_unserializable :: env where
  "ex_env_present_unserializable =
     ex_env_present\<lparr>annotator_Serialize := (\<lambda>obj. Inl (SerializationFailure ''marshal''))\<rparr>"

definition ex_env_timeout_unserializable :: env where
  "ex_env_timeout_unserializable =
     ex_env_timeout\<lparr>annotator_Serialize := (\<lambda>obj. Inl (SerializationFailure ''marshal''))\<rparr>"

text \<open>What \<open>ex_def\<close> becomes on its way to an update of \<open>ex_stored\<close>.\<close>

definition ex_sent :: PodDisruptionBudget where
  "ex_sent = SetOriginalConfiguration (copyStoredFields ex_stored ex_def) ''new-snapshot''"

text \<open>The cluster with the budget enabled and the lower bound set to one.\<close>

definition ex_cr_bounded :: RedisCluster where
  "ex_cr_bounded = ex_cluster (Some (ex_params (Some 1) None True))"

section \<open>Properties\<close>

lemmas build_defs = pdbDef_def generatePodDisruptionBudgetDef_def generateObjectMetaInformation_def
  pdbName_def LabelSelectors_def AddOwnerRefToObject_def intstr_FromInt_def

subsection \<open>The bounds of the built object\<close>

text \<open>
  For a size of at least one, the \<^verbatim>\<open>int32\<close> expression \<^verbatim>\<open>(size / 2) + 1\<close> neither
  truncates differently from the floor nor wraps around.
\<close>

lemma int32_quorum:
  fixes n :: int32
  assumes "1 \<le> sint n"
  shows "sint (int32_div n 2 + 1) = sint n div 2 + 1"
proof -
  have ub: "sint n < 2 ^ 31"
    using sint_lt [of n] by simp
  have sd: "sint n sdiv 2 = sint n div 2"
    using assms by (simp add: signed_divide_int_def sgn_if)
  have two: "sint (2 :: int32) = 2" by simp
  have "int32_div n 2 + 1 = (word_of_int (sint n div 2 + 1) :: int32)"
    by (simp add: int32_div_def two sd)
  moreover have "sint (word_of_int (sint n div 2 + 1) :: int32) = sint n div 2 + 1"
  proof -
    have "- (2 ^ 31) \<le> sint n div 2 + 1" "sint n div 2 + 1 < 2 ^ 31"
      using assms ub by linarith+
    then have "signed_take_bit 31 (sint n div 2 + 1) = sint n div 2 + 1"
      by (rule signed_take_bit_int_eq_self)
    then show ?thesis
      unfolding sint_sbintrunc' by simp
  qed
  ultimately show ?thesis by simp
qed

lemma int32_quorum_3: "int32_div 3 2 + 1 = 2"
  by (simp add: int32_div_def signed_divide_int_def)

lemma pdbDef_key:
  assumes "pdbDef h cr role = Inr d"
  shows "Name (ObjectMeta d) = pdbName cr role"
    and "Namespace (ObjectMeta d) = Namespace (cr_ObjectMeta cr)"
    and "Annotations (ObjectMeta d) = generateStatefulSetsAnots h"
  using assms
  by (auto simp: pdbDef_def generatePodDisruptionBudgetDef_def generateObjectMetaInformation_def
      AddOwnerRefToObject_def Let_def split: option.splits if_splits)

lemma ex_pdbDef: "pdbDef ex_helpers ex_cr ''leader'' = Inr ex_def"
  by (simp add: build_defs ex_helpers_def ex_cr_def ex_cluster_def ex_params_def ex_meta_def
      ex_def_def int32_quorum_3 Let_def)

text \<open>
  C2. When neither bound is set and the cluster size \<open>n\<close> is at least one,
  \<^verbatim>\<open>generatePodDisruptionBudgetDef\<close> returns an object whose \<open>MinAvailable\<close> is the integer
  \<open>\<lfloor>n / 2\<rfloor> + 1\<close> and whose \<open>MaxUnavailable\<close> is unset. When exactly one bound is set,
  that bound is copied as it is, the other one stays unset, and the quorum value is not
  used.
\<close>

theorem quorum_default_and_verbatim_bounds:
  "(pdb_MinAvailable p = None \<and> pdb_MaxUnavailable p = None \<and> Size (cr_Spec cr) = Some n \<and> 1 \<le> sint n \<longrightarrow>
      (\<exists>d v. generatePodDisruptionBudgetDef h cr role pdbMeta (Some p) = Inr d
         \<and> MinAvailable (Spec d) = Some \<lparr>Type = intstr_Int, IntVal = v, StrVal = []\<rparr>
         \<and> sint v = sint n div 2 + 1
         \<and> MaxUnavailable (Spec d) = None))
   \<and> (pdb_MinAvailable p = Some m \<and> pdb_MaxUnavailable p = None \<longrightarrow>
      (\<exists>d. generatePodDisruptionBudgetDef h cr role pdbMeta (Some p) = Inr d
         \<and> MinAvailable (Spec d) = Some \<lparr>Type = intstr_Int, IntVal = m, StrVal = []\<rparr>
         \<and> MaxUnavailable (Spec d) = None))
   \<and> (pdb_MinAvailable p = None \<and> pdb_MaxUnavailable p = Some m \<longrightarrow>
      (\<exists>d. generatePodDisruptionBudgetDef h cr role pdbMeta (Some p) = Inr d
         \<and> MinAvailable (Spec d) = None
         \<and> MaxUnavailable (Spec d) = Some \<lparr>Type = intstr_Int, IntVal = m, StrVal = []\<rparr>))"
  by (simp add: generatePodDisruptionBudgetDef_def AddOwnerRefToObject_def intstr_FromInt_def
      int32_quorum Let_def)

theorem quorum_default_and_verbatim_bounds_witness:
  "(\<exists>d v. generatePodDisruptionBudgetDef ex_helpers ex_cr ''leader'' ex_meta
             (Some (ex_params None None True)) = Inr d
         \<and> MinAvailable (Spec d) = Some \<lparr>Type = intstr_Int, IntVal = v, StrVal = []\<rparr>
         \<and> sint v = 2 \<and> MaxUnavailable (Spec d) = None)
   \<and> (\<exists>d. generatePodDisruptionBudgetDef ex_helpers ex_cr ''leader'' ex_meta
             (Some (ex_params (Some 1) None True)) = Inr d
         \<and> MinAvailable (Spec d) = Some \<lparr>Type = intstr_Int, IntVal = 1, StrVal = []\<rparr>
         \<and> MaxUnavailable (Spec d) = None)
   \<and> (\<exists>d. generatePodDisruptionBudgetDef ex_helpers ex_cr ''leader'' ex_meta
             (Some (ex_params None (Some 1) True)) = Inr d
         \<and> MinAvailable (Spec d) = None
         \<and> MaxUnavailable (Spec d) = Some \<lparr>Type = intstr_Int, IntVal = 1, StrVal = []\<rparr>)"
  using quorum_default_and_verbatim_bounds
          [of "ex_params None None True" ex_cr 3 ex_helpers "''leader''" ex_meta]
        quorum_default_and_verbatim_bounds
          [of "ex_params (Some 1) None True" ex_cr _ ex_helpers "''leader''" ex_meta 1]
        quorum_default_and_verbatim_bounds
          [of "ex_params None (Some 1) True" ex_cr _ ex_helpers "''leader''" ex_meta 1]
  by (simp add: ex_params_def ex_cr_def ex_cluster_def)

subsection \<open>The functions, case by case\<close>

text \<open>
  Each function rewritten as one case distinction over the answers of the collaborators.
\<close>

lemma reconcile_enabled:
  assumes "pdbEnabled cr" and "pdbDef h cr role = Inr d"
  shows "ReconcileRedisPodDisruptionBudget e h cr role = CreateOrUpdatePodDisruptionBudget e d"
  using assms by (simp add: ReconcileRedisPodDisruptionBudget_def)

lemma createOrUpdate_absent:
  assumes "client_Get e (Namespace (ObjectMeta d)) (Name (ObjectMeta d)) = Inl err"
    and "annotator_Serialize e d = Inr s"
  shows "CreateOrUpdatePodDisruptionBudget e d =
           (if IsNotFound err
            then (client_Create e (Namespace (ObjectMeta d)) (SetOriginalConfiguration d s),
                  [GetCall (Namespace (ObjectMeta d)) (Name (ObjectMeta d)), SetLastAppliedCall d,
                   CreateCall (Namespace (ObjectMeta d)) (SetOriginalConfiguration d s)])
            else (Inl err, [GetCall (Namespace (ObjectMeta d)) (Name (ObjectMeta d)), SetLastAppliedCall d]))"
  using assms
  by (simp add: CreateOrUpdatePodDisruptionBudget_def GetPodDisruptionBudget_def
      SetLastAppliedAnnotation_def createPodDisruptionBudget_def SetOriginalConfiguration_def
      split: sum.splits)

lemma createOrUpdate_absent_unserializable:
  assumes "client_Get e (Namespace (ObjectMeta d)) (Name (ObjectMeta d)) = Inl err"
    and "annotator_Serialize e d = Inl serr"
  shows "CreateOrUpdatePodDisruptionBudget e d =
           (Inl serr, [GetCall (Namespace (ObjectMeta d)) (Name (ObjectMeta d)), SetLastAppliedCall d])"
  using assms
  by (simp add: CreateOrUpdatePodDisruptionBudget_def GetPodDisruptionBudget_def
      SetLastAppliedAnnotation_def)

lemma createOrUpdate_present:
  assumes "client_Get e (Namespace (ObjectMeta d)) (Name (ObjectMeta d)) = Inr stored"
  shows "CreateOrUpdatePodDisruptionBudget e d =
           (fst (patchPodDisruptionBudget e stored d (Namespace (ObjectMeta d))),
            GetCall (Namespace (ObjectMeta d)) (Name (ObjectMeta d))
              # snd (patchPodDisruptionBudget e stored d (Namespace (ObjectMeta d))))"
  using assms
  by (simp add: CreateOrUpdatePodDisruptionBudget_def GetPodDisruptionBudget_def split: prod.splits)

lemma patch_cases:
  "patchPodDisruptionBudget e stored new ns =
     (case patchMaker_Calculate e stored new of
        Inl err \<Rightarrow> (Inl err, [CalculateCall stored new])
      | Inr True \<Rightarrow> (Inr (), [CalculateCall stored new])
      | Inr False \<Rightarrow>
          (case annotator_Serialize e (copyStoredFields stored new) of
             Inl serr \<Rightarrow> (Inl serr, [CalculateCall stored new,
                                    SetLastAppliedCall (copyStoredFields stored new)])
           | Inr s \<Rightarrow>
               (client_Update e ns (SetOriginalConfiguration (copyStoredFields stored new) s),
                [CalculateCall stored new, SetLastAppliedCall (copyStoredFields stored new),
                 UpdateCall ns (SetOriginalConfiguration (copyStoredFields stored new) s)])))"
  by (simp add: patchPodDisruptionBudget_def SetLastAppliedAnnotation_def
      updatePodDisruptionBudget_def split: sum.splits bool.splits)

lemma reconcile_disabled_cases:
  assumes "\<not> pdbEnabled cr"
  shows "ReconcileRedisPodDisruptionBudget e h cr role =
     (case client_Get e (Namespace (cr_ObjectMeta cr)) (pdbName cr role) of
        Inr stored \<Rightarrow> (client_Delete e (Namespace (cr_ObjectMeta cr)) (pdbName cr role),
                       [GetCall (Namespace (cr_ObjectMeta cr)) (pdbName cr role),
                        DeleteCall (Namespace (cr_ObjectMeta cr)) (pdbName cr role)])
      | Inl err \<Rightarrow> (if IsNotFound err then Inr () else Inl err,
                    [GetCall (Namespace (cr_ObjectMeta cr)) (pdbName cr role)]))"
  using assms
  by (simp add: ReconcileRedisPodDisruptionBudget_def GetPodDisruptionBudget_def
      deletePodDisruptionBudget_def split: sum.splits)

lemma createOrUpdate_cases:
  "CreateOrUpdatePodDisruptionBudget e d =
     (case client_Get e (Namespace (ObjectMeta d)) (Name (ObjectMeta d)) of
        Inl err \<Rightarrow>
          (case annotator_Serialize e d of
             Inl serr \<Rightarrow> (Inl serr, [GetCall (Namespace (ObjectMeta d)) (Name (ObjectMeta d)),
                                    SetLastAppliedCall d])
           | Inr s \<Rightarrow>
               if IsNotFound err
               then (client_Create e (Namespace (ObjectMeta d)) (SetOriginalConfiguration d s),
                     [GetCall (Namespace (ObjectMeta d)) (Name (ObjectMeta d)), SetLastAppliedCall d,
                      CreateCall (Namespace (ObjectMeta d)) (SetOriginalConfiguration d s)])
               else (Inl err, [GetCall (Namespace (ObjectMeta d)) (Name (ObjectMeta d)),
                               SetLastAppliedCall d]))
      | Inr stored \<Rightarrow>
          (fst (patchPodDisruptionBudget e stored d (Namespace (ObjectMeta d))),
           GetCall (Namespace (ObjectMeta d)) (Name (ObjectMeta d))
             # snd (patchPodDisruptionBudget e stored d (Namespace (ObjectMeta d)))))"
  by (simp add: createOrUpdate_absent createOrUpdate_absent_unserializable createOrUpdate_present
      split: sum.splits)

lemma patch_stamping_failure:
  assumes "SetLastAppliedCall obj \<in> set (snd (patchPodDisruptionBudget e stored new ns))"
    and "annotator_Serialize e obj = Inl serr"
  shows "fst (patchPodDisruptionBudget e stored new ns) = Inl serr
         \<and> writes (snd (patchPodDisruptionBudget e stored new ns)) = []"
  using assms by (auto simp: patch_cases writes_def split: sum.splits bool.splits)

lemma createOrUpdate_stamping_failure:
  assumes "SetLastAppliedCall obj \<in> set (snd (CreateOrUpdatePodDisruptionBudget e d))"
    and "annotator_Serialize e obj = Inl serr"
  shows "fst (CreateOrUpdatePodDisruptionBudget e d) = Inl serr
         \<and> writes (snd (CreateOrUpdatePodDisruptionBudget e d)) = []"
proof (cases "client_Get e (Namespace (ObjectMeta d)) (Name (ObjectMeta d))")
  case (Inl err)
  with assms show ?thesis
    by (auto simp: createOrUpdate_cases writes_def split: sum.splits if_splits)
next
  case (Inr stored)
  with assms patch_stamping_failure [of obj e stored d "Namespace (ObjectMeta d)" serr]
  show ?thesis
    by (simp add: createOrUpdate_cases writes_def)
qed

lemma patch_update_sent:
  assumes "UpdateCall n obj \<in> set (snd (patchPodDisruptionBudget e stored new ns))"
  shows "patchMaker_Calculate e stored new = Inr False
         \<and> (\<exists>s. annotator_Serialize e (copyStoredFields stored new) = Inr s
                \<and> obj = SetOriginalConfiguration (copyStoredFields stored new) s)
         \<and> n = ns"
  using assms by (auto simp: patch_cases split: sum.splits bool.splits)

lemma reconcile_update_sent:
  assumes "UpdateCall n obj \<in> set (snd (ReconcileRedisPodDisruptionBudget e h cr role))"
  shows "\<exists>d stored. pdbEnabled cr \<and> pdbDef h cr role = Inr d
           \<and> client_Get e (Namespace (cr_ObjectMeta cr)) (pdbName cr role) = Inr stored
           \<and> GetCall (Namespace (cr_ObjectMeta cr)) (pdbName cr role)
               \<in> set (snd (ReconcileRedisPodDisruptionBudget e h cr role))
           \<and> UpdateCall n obj \<in> set (snd (patchPodDisruptionBudget e stored d (Namespace (cr_ObjectMeta cr))))"
proof (cases "pdbEnabled cr")
  case False
  with assms show ?thesis
    by (simp add: reconcile_disabled_cases split: sum.splits)
next
  case True
  show ?thesis
  proof (cases "pdbDef h cr role")
    case (Inl err)
    with True assms show ?thesis
      by (simp add: ReconcileRedisPodDisruptionBudget_def)
  next
    case (Inr d)
    have key: "Namespace (ObjectMeta d) = Namespace (cr_ObjectMeta cr)" "Name (ObjectMeta d) = pdbName cr role"
      using pdbDef_key [OF Inr] by simp_all
    have run: "ReconcileRedisPodDisruptionBudget e h cr role = CreateOrUpdatePodDisruptionBudget e d"
      using True Inr by (rule reconcile_enabled)
    show ?thesis
    proof (cases "client_Get e (Namespace (cr_ObjectMeta cr)) (pdbName cr role)")
      case (Inl err)
      with assms show ?thesis
        by (auto simp: run key createOrUpdate_cases split: sum.splits if_splits)
    next
      case got: (Inr stored)
      with assms True Inr show ?thesis
        by (simp add: run key createOrUpdate_cases)
    qed
  qed
qed

lemma pdbDef_role:
  assumes "pdbDef h cr r1 = Inr d1"
  shows "pdbDef h cr r2 =
           Inr (d1\<lparr>ObjectMeta := (ObjectMeta d1)
                     \<lparr>Name := pdbName cr r2,
                      Labels := getRedisLabels h (Name (cr_ObjectMeta cr)) ''cluster'' r2\<rparr>,
                   Spec := (Spec d1)
                     \<lparr>Selector := LabelSelectors [''app'' \<mapsto> Name (cr_ObjectMeta cr), ''role'' \<mapsto> r2]\<rparr>\<rparr>)"
  using assms
  by (auto simp: pdbDef_def generatePodDisruptionBudgetDef_def generateObjectMetaInformation_def
      AddOwnerRefToObject_def Let_def split: option.splits if_splits)

lemma pdbDef_bounds:
  assumes "leader_PodDisruptionBudget (RedisLeader (cr_Spec cr)) = Some p"
  shows "case pdbDef h cr role of
           Inl err \<Rightarrow>
             pdb_MinAvailable p = None \<and> pdb_MaxUnavailable p = None \<and> Size (cr_Spec cr) = None
         | Inr d \<Rightarrow>
             MaxUnavailable (Spec d) = map_option intstr_FromInt (pdb_MaxUnavailable p)
             \<and> MinAvailable (Spec d) =
                 (case pdb_MinAvailable p of
                    Some m \<Rightarrow> Some (intstr_FromInt m)
                  | None \<Rightarrow>
                      (case pdb_MaxUnavailable p of
                         Some m \<Rightarrow> None
                       | None \<Rightarrow> map_option (\<lambda>n. intstr_FromInt (int32_div n 2 + 1))
                                   (Size (cr_Spec cr))))
             \<and> Name (ObjectMeta d) = Name (cr_ObjectMeta cr) @ ''-'' @ role
             \<and> Namespace (ObjectMeta d) = Namespace (cr_ObjectMeta cr)
             \<and> Labels (ObjectMeta d) = getRedisLabels h (Name (cr_ObjectMeta cr)) ''cluster'' role
             \<and> Selector (Spec d) = [''app'' \<mapsto> Name (cr_ObjectMeta cr), ''role'' \<mapsto> role]"
  using assms
  by (auto simp: pdbDef_def generatePodDisruptionBudgetDef_def generateObjectMetaInformation_def
      AddOwnerRefToObject_def LabelSelectors_def pdbName_def Let_def
      split: option.splits sum.splits)

subsection \<open>Runs on the concrete inputs\<close>

lemmas ex_env_defs = ex_env_def ex_env_present_def ex_env_unchanged_def ex_env_timeout_def
  ex_env_unserializable_def ex_env_present_unserializable_def ex_env_timeout_unserializable_def

lemma ex_enabled: "pdbEnabled ex_cr" and ex_disabled: "\<not> pdbEnabled ex_cr_disabled"
  and ex_unconfigured: "\<not> pdbEnabled ex_cr_unconfigured"
  by (simp_all add: pdbEnabled_def ex_cr_def ex_cr_disabled_def ex_cr_unconfigured_def
      ex_cluster_def ex_params_def)

lemma ex_key:
  "Namespace (cr_ObjectMeta ex_cr) = ''prod''" "pdbName ex_cr ''leader'' = ''redis-leader''"
  "Namespace (cr_ObjectMeta ex_cr_disabled) = ''prod''"
  "pdbName ex_cr_disabled ''leader'' = ''redis-leader''"
  "Namespace (cr_ObjectMeta ex_cr_unconfigured) = ''prod''"
  "pdbName ex_cr_unconfigured ''leader'' = ''redis-leader''"
  "Namespace (ObjectMeta ex_def) = ''prod''" "Name (ObjectMeta ex_def) = ''redis-leader''"
  by (simp_all add: pdbName_def ex_cr_def ex_cr_disabled_def ex_cr_unconfigured_def
      ex_cluster_def ex_meta_def ex_def_def)

lemma ex_run_present:
  "ReconcileRedisPodDisruptionBudget ex_env_present ex_helpers ex_cr ''leader'' =
     (Inr (), [GetCall ''prod'' ''redis-leader'', CalculateCall ex_stored ex_def,
               SetLastAppliedCall (copyStoredFields ex_stored ex_def),
               UpdateCall ''prod'' ex_sent])"
  by (simp add: reconcile_enabled [OF ex_enabled ex_pdbDef] createOrUpdate_cases patch_cases ex_key
      ex_env_defs ex_sent_def)

lemma ex_patch_present:
  "patchPodDisruptionBudget ex_env_present ex_stored ex_def ''prod'' =
     (Inr (), [CalculateCall ex_stored ex_def,
               SetLastAppliedCall (copyStoredFields ex_stored ex_def),
               UpdateCall ''prod'' ex_sent])"
  by (simp add: patch_cases ex_env_defs ex_sent_def)

lemma ex_sent_meta:
  "ResourceVersion (ObjectMeta ex_sent) = ''41''"
  "Annotations (ObjectMeta ex_sent) LastAppliedConfig = Some ''new-snapshot''"
  by (simp_all add: ex_sent_def SetOriginalConfiguration_def copyStoredFields_def ex_stored_def)

lemma ex_annotations:
  "Annotations (ObjectMeta ex_stored) LastAppliedConfig = Some ''old-snapshot''"
  "Annotations (ObjectMeta ex_stored) ''team'' = Some ''payments''"
  "Annotations (ObjectMeta ex_def) LastAppliedConfig = None"
  "Annotations (ObjectMeta ex_def) ''team'' = None"
  "Annotations (ObjectMeta ex_def) ''redis.opstreelabs.in'' = Some ''true''"
  "''team'' \<noteq> LastAppliedConfig" "''redis.opstreelabs.in'' \<noteq> LastAppliedConfig"
  by (simp_all add: ex_stored_def ex_def_def LastAppliedConfig_def)

lemma ex_def_not_sent: "ex_def \<noteq> ex_sent"
proof
  assume "ex_def = ex_sent"
  then have "ResourceVersion (ObjectMeta ex_def) = ResourceVersion (ObjectMeta ex_sent)"
    by simp
  then show False
    by (simp add: ex_sent_meta ex_def_def)
qed

lemma ex_run_unserializable:
  "snd (ReconcileRedisPodDisruptionBudget ex_env_unserializable ex_helpers ex_cr ''leader'') =
     [GetCall ''prod'' ''redis-leader'', SetLastAppliedCall ex_def]"
  "snd (ReconcileRedisPodDisruptionBudget ex_env_present_unserializable ex_helpers ex_cr ''leader'') =
     [GetCall ''prod'' ''redis-leader'', CalculateCall ex_stored ex_def,
      SetLastAppliedCall (copyStoredFields ex_stored ex_def)]"
  by (simp_all add: reconcile_enabled [OF ex_enabled ex_pdbDef] createOrUpdate_cases patch_cases
      ex_key ex_env_defs)

lemma ex_bounded: "leader_PodDisruptionBudget (RedisLeader (cr_Spec ex_cr_bounded)) =
    Some (ex_params (Some 1) None True)"
  and ex_quorum: "leader_PodDisruptionBudget (RedisLeader (cr_Spec ex_cr)) =
    Some (ex_params None None True)"
  and ex_off: "leader_PodDisruptionBudget (RedisLeader (cr_Spec ex_cr_disabled)) =
    Some (ex_params None None False)"
  by (simp_all add: ex_cr_bounded_def ex_cr_def ex_cr_disabled_def ex_cluster_def)

lemma ex_run_timeout:
  "ReconcileRedisPodDisruptionBudget ex_env_timeout ex_helpers ex_cr ''leader'' =
     (Inl (BackendError ''timeout''), [GetCall ''prod'' ''redis-leader'', SetLastAppliedCall ex_def])"
  "ReconcileRedisPodDisruptionBudget ex_env_timeout_unserializable ex_helpers ex_cr ''leader'' =
     (Inl (SerializationFailure ''marshal''), [GetCall ''prod'' ''redis-leader'', SetLastAppliedCall ex_def])"
  by (simp_all add: reconcile_enabled [OF ex_enabled ex_pdbDef] createOrUpdate_cases
      ex_key ex_env_defs)

subsection \<open>The enabled branch\<close>

text \<open>
  C1. With the budget enabled and the desired definition \<open>d\<close> built, the invocation acts by
  the presence of the live object. If the fetch says not found and \<open>d\<close> is stamped, the
  only write is one create call, with the stamped \<open>d\<close>. If the object is present, the diff
  of the stored object and \<open>d\<close> is computed; when it is empty there is no write and the
  result is success; when it is not empty and the merged object is stamped, the only
  write is one update call.
\<close>

theorem reconcile_enabled_state_machine:
  assumes "pdbEnabled cr" and "pdbDef h cr role = Inr d"
  shows
    "(\<forall>err s. client_Get e (Namespace (cr_ObjectMeta cr)) (pdbName cr role) = Inl err
         \<and> IsNotFound err \<and> annotator_Serialize e d = Inr s \<longrightarrow>
         writes (snd (ReconcileRedisPodDisruptionBudget e h cr role)) =
           [CreateCall (Namespace (cr_ObjectMeta cr)) (SetOriginalConfiguration d s)]
         \<and> fst (ReconcileRedisPodDisruptionBudget e h cr role) =
             client_Create e (Namespace (cr_ObjectMeta cr)) (SetOriginalConfiguration d s))
     \<and> (\<forall>stored. client_Get e (Namespace (cr_ObjectMeta cr)) (pdbName cr role) = Inr stored
         \<and> patchMaker_Calculate e stored d = Inr True \<longrightarrow>
         CalculateCall stored d \<in> set (snd (ReconcileRedisPodDisruptionBudget e h cr role))
         \<and> writes (snd (ReconcileRedisPodDisruptionBudget e h cr role)) = []
         \<and> fst (ReconcileRedisPodDisruptionBudget e h cr role) = Inr ())
     \<and> (\<forall>stored s. client_Get e (Namespace (cr_ObjectMeta cr)) (pdbName cr role) = Inr stored
         \<and> patchMaker_Calculate e stored d = Inr False
         \<and> annotator_Serialize e (copyStoredFields stored d) = Inr s \<longrightarrow>
         CalculateCall stored d \<in> set (snd (ReconcileRedisPodDisruptionBudget e h cr role))
         \<and> writes (snd (ReconcileRedisPodDisruptionBudget e h cr role)) =
             [UpdateCall (Namespace (cr_ObjectMeta cr))
                (SetOriginalConfiguration (copyStoredFields stored d) s)]
         \<and> fst (ReconcileRedisPodDisruptionBudget e h cr role) =
             client_Update e (Namespace (cr_ObjectMeta cr))
               (SetOriginalConfiguration (copyStoredFields stored d) s))"
proof -
  let ?ns = "Namespace (cr_ObjectMeta cr)" and ?name = "pdbName cr role"
  have key: "Namespace (ObjectMeta d) = ?ns" "Name (ObjectMeta d) = ?name"
    using pdbDef_key [OF assms(2)] by simp_all
  have run: "ReconcileRedisPodDisruptionBudget e h cr role = CreateOrUpdatePodDisruptionBudget e d"
    by (rule reconcile_enabled [OF assms])
  have absent: "writes (snd (CreateOrUpdatePodDisruptionBudget e d)) =
                  [CreateCall ?ns (SetOriginalConfiguration d s)]
                \<and> fst (CreateOrUpdatePodDisruptionBudget e d) =
                    client_Create e ?ns (SetOriginalConfiguration d s)"
    if "client_Get e ?ns ?name = Inl err" "IsNotFound err" "annotator_Serialize e d = Inr s"
    for err s
    using that createOrUpdate_absent [of e d err s] by (simp add: key writes_def)
  have unchanged: "CalculateCall stored d \<in> set (snd (CreateOrUpdatePodDisruptionBudget e d))
                \<and> writes (snd (CreateOrUpdatePodDisruptionBudget e d)) = []
                \<and> fst (CreateOrUpdatePodDisruptionBudget e d) = Inr ()"
    if "client_Get e ?ns ?name = Inr stored" "patchMaker_Calculate e stored d = Inr True"
    for stored
    using that createOrUpdate_present [of e d stored]
    by (simp add: key writes_def patch_cases)
  have changed: "CalculateCall stored d \<in> set (snd (CreateOrUpdatePodDisruptionBudget e d))
                \<and> writes (snd (CreateOrUpdatePodDisruptionBudget e d)) =
                    [UpdateCall ?ns (SetOriginalConfiguration (copyStoredFields stored d) s)]
                \<and> fst (CreateOrUpdatePodDisruptionBudget e d) =
                    client_Update e ?ns (SetOriginalConfiguration (copyStoredFields stored d) s)"
    if "client_Get e ?ns ?name = Inr stored" "patchMaker_Calculate e stored d = Inr False"
      "annotator_Serialize e (copyStoredFields stored d) = Inr s"
    for stored s
    using that createOrUpdate_present [of e d stored]
    by (simp add: key writes_def patch_cases)
  show ?thesis
    unfolding run using absent unchanged changed by blast
qed

theorem reconcile_enabled_state_machine_witness:
  "writes (snd (ReconcileRedisPodDisruptionBudget ex_env ex_helpers ex_cr ''leader'')) =
     [CreateCall ''prod'' (SetOriginalConfiguration ex_def ''new-snapshot'')]
   \<and> writes (snd (ReconcileRedisPodDisruptionBudget ex_env_unchanged ex_helpers ex_cr ''leader'')) = []
   \<and> fst (ReconcileRedisPodDisruptionBudget ex_env_unchanged ex_helpers ex_cr ''leader'') = Inr ()
   \<and> writes (snd (ReconcileRedisPodDisruptionBudget ex_env_present ex_helpers ex_cr ''leader'')) =
       [UpdateCall ''prod'' ex_sent]"
  using reconcile_enabled_state_machine [OF ex_enabled ex_pdbDef, of ex_env]
    reconcile_enabled_state_machine [OF ex_enabled ex_pdbDef, of ex_env_unchanged]
    reconcile_enabled_state_machine [OF ex_enabled ex_pdbDef, of ex_env_present]
  by (simp add: ex_key ex_env_defs ex_sent_def)

subsection \<open>The comparison and the update\<close>

text \<open>
  C3, as stated, fails: the object sent on update is \<open>ex_sent\<close>, the patch maker was never
  asked about \<open>ex_sent\<close>, and it was asked about \<open>ex_def\<close>, the object before the copy, the
  merge and the stamp.
\<close>

theorem comparison_precedes_merge_and_stamp:
  "UpdateCall ''prod'' ex_sent
     \<in> set (snd (patchPodDisruptionBudget ex_env_present ex_stored ex_def ''prod''))
   \<and> CalculateCall ex_stored ex_sent
     \<notin> set (snd (patchPodDisruptionBudget ex_env_present ex_stored ex_def ''prod''))
   \<and> CalculateCall ex_stored ex_def
     \<in> set (snd (patchPodDisruptionBudget ex_env_present ex_stored ex_def ''prod''))"
  using ex_def_not_sent by (auto simp: ex_patch_present)

text \<open>
  C3, as amended. \<^verbatim>\<open>patchPodDisruptionBudget\<close> first asks the patch maker about the stored
  object and the new object as it was built, and asks no second time. An update, if there
  is one, follows a patch that is not empty, and sends the new object after the
  backend-owned fields were copied, the annotations merged and the snapshot stamped.
\<close>

theorem comparison_on_candidate_as_built:
  "\<exists>rest. snd (patchPodDisruptionBudget e stored new ns) = CalculateCall stored new # rest
     \<and> (\<forall>a b. CalculateCall a b \<notin> set rest)
     \<and> (\<forall>n obj. UpdateCall n obj \<in> set rest \<longrightarrow>
           patchMaker_Calculate e stored new = Inr False
           \<and> (\<exists>s. annotator_Serialize e (copyStoredFields stored new) = Inr s
                  \<and> obj = SetOriginalConfiguration (copyStoredFields stored new) s))"
  by (auto simp: patch_cases split: sum.splits bool.splits)

theorem comparison_on_candidate_as_built_witness:
  "patchMaker_Calculate ex_env_present ex_stored ex_def = Inr False
   \<and> (\<exists>s. annotator_Serialize ex_env_present (copyStoredFields ex_stored ex_def) = Inr s
          \<and> ex_sent = SetOriginalConfiguration (copyStoredFields ex_stored ex_def) s)"
proof -
  from comparison_on_candidate_as_built [of ex_env_present ex_stored ex_def "''prod''"]
  obtain rest where
    calls: "snd (patchPodDisruptionBudget ex_env_present ex_stored ex_def ''prod'') =
              CalculateCall ex_stored ex_def # rest"
    and upd: "\<forall>n obj. UpdateCall n obj \<in> set rest \<longrightarrow>
           patchMaker_Calculate ex_env_present ex_stored ex_def = Inr False
           \<and> (\<exists>s. annotator_Serialize ex_env_present (copyStoredFields ex_stored ex_def) = Inr s
                  \<and> obj = SetOriginalConfiguration (copyStoredFields ex_stored ex_def) s)"
    by blast
  from calls have "rest = [SetLastAppliedCall (copyStoredFields ex_stored ex_def),
                           UpdateCall ''prod'' ex_sent]"
    by (simp add: ex_patch_present)
  then have "UpdateCall ''prod'' ex_sent \<in> set rest"
    by simp
  with upd show ?thesis by blast
qed

text \<open>
  C5. An object sent on update has the resource version, the creation timestamp and the
  managed fields of the object that the fetch of the same invocation returned.
\<close>

theorem update_carries_stored_backend_fields:
  assumes "UpdateCall n obj \<in> set (snd (ReconcileRedisPodDisruptionBudget e h cr role))"
  shows "\<exists>stored. client_Get e (Namespace (cr_ObjectMeta cr)) (pdbName cr role) = Inr stored
           \<and> GetCall (Namespace (cr_ObjectMeta cr)) (pdbName cr role)
               \<in> set (snd (ReconcileRedisPodDisruptionBudget e h cr role))
           \<and> ResourceVersion (ObjectMeta obj) = ResourceVersion (ObjectMeta stored)
           \<and> CreationTimestamp (ObjectMeta obj) = CreationTimestamp (ObjectMeta stored)
           \<and> ManagedFields (ObjectMeta obj) = ManagedFields (ObjectMeta stored)"
proof -
  from reconcile_update_sent [OF assms] obtain d stored where
    got: "client_Get e (Namespace (cr_ObjectMeta cr)) (pdbName cr role) = Inr stored"
    and call: "GetCall (Namespace (cr_ObjectMeta cr)) (pdbName cr role)
               \<in> set (snd (ReconcileRedisPodDisruptionBudget e h cr role))"
    and upd: "UpdateCall n obj \<in> set (snd (patchPodDisruptionBudget e stored d (Namespace (cr_ObjectMeta cr))))"
    by blast
  from patch_update_sent [OF upd] obtain s where
    "obj = SetOriginalConfiguration (copyStoredFields stored d) s" by blast
  then have "ResourceVersion (ObjectMeta obj) = ResourceVersion (ObjectMeta stored)"
    "CreationTimestamp (ObjectMeta obj) = CreationTimestamp (ObjectMeta stored)"
    "ManagedFields (ObjectMeta obj) = ManagedFields (ObjectMeta stored)"
    by (simp_all add: SetOriginalConfiguration_def copyStoredFields_def)
  with got call show ?thesis by blast
qed

theorem update_carries_stored_backend_fields_witness:
  "UpdateCall ''prod'' ex_sent
     \<in> set (snd (ReconcileRedisPodDisruptionBudget ex_env_present ex_helpers ex_cr ''leader''))
   \<and> ResourceVersion (ObjectMeta ex_sent) = ''41''
   \<and> CreationTimestamp (ObjectMeta ex_sent) = ''2021-03-01T10:00:00Z''
   \<and> ManagedFields (ObjectMeta ex_sent) = [''kube-controller-manager'']"
proof -
  have mem: "UpdateCall ''prod'' ex_sent
     \<in> set (snd (ReconcileRedisPodDisruptionBudget ex_env_present ex_helpers ex_cr ''leader''))"
    by (simp add: ex_run_present)
  from update_carries_stored_backend_fields [OF mem] obtain stored where
    "client_Get ex_env_present (Namespace (cr_ObjectMeta ex_cr)) (pdbName ex_cr ''leader'') = Inr stored"
    and eq: "ResourceVersion (ObjectMeta ex_sent) = ResourceVersion (ObjectMeta stored)"
      "CreationTimestamp (ObjectMeta ex_sent) = CreationTimestamp (ObjectMeta stored)"
      "ManagedFields (ObjectMeta ex_sent) = ManagedFields (ObjectMeta stored)"
    by blast
  then have "stored = ex_stored"
    by (simp add: ex_env_defs)
  with eq mem show ?thesis
    by (simp add: ex_stored_def)
qed

text \<open>
  C6, as stated, fails for the snapshot key: the stored object has it, the new object as
  built does not, and the object sent on update has the fresh snapshot, not the stored
  one.
\<close>

theorem snapshot_annotation_not_preserved:
  "Annotations (ObjectMeta ex_stored) LastAppliedConfig = Some ''old-snapshot''
   \<and> Annotations (ObjectMeta ex_def) LastAppliedConfig = None
   \<and> UpdateCall ''prod'' ex_sent
       \<in> set (snd (patchPodDisruptionBudget ex_env_present ex_stored ex_def ''prod''))
   \<and> Annotations (ObjectMeta ex_sent) LastAppliedConfig \<noteq> Some ''old-snapshot''"
  by (simp add: ex_annotations ex_patch_present ex_sent_meta)

text \<open>
  C6, as amended. In an object sent on update, every annotation key other than the
  snapshot key has the value of the new object when the new object has the key, and the
  value of the stored object when only the stored object has it. The snapshot key has
  the fresh serialisation.
\<close>

theorem update_merges_annotations_except_snapshot:
  assumes "UpdateCall n obj \<in> set (snd (patchPodDisruptionBudget e stored new ns))"
  shows "(\<forall>key v. key \<noteq> LastAppliedConfig \<and> Annotations (ObjectMeta stored) key = Some v
            \<and> Annotations (ObjectMeta new) key = None \<longrightarrow>
            Annotations (ObjectMeta obj) key = Some v)
       \<and> (\<forall>key v. key \<noteq> LastAppliedConfig \<and> Annotations (ObjectMeta new) key = Some v \<longrightarrow>
            Annotations (ObjectMeta obj) key = Some v)
       \<and> (\<exists>s. annotator_Serialize e (copyStoredFields stored new) = Inr s
              \<and> Annotations (ObjectMeta obj) LastAppliedConfig = Some s)"
proof -
  from patch_update_sent [OF assms] obtain s where
    ser: "annotator_Serialize e (copyStoredFields stored new) = Inr s"
    and obj: "obj = SetOriginalConfiguration (copyStoredFields stored new) s" by blast
  have "Annotations (ObjectMeta obj) =
          (mergeAnnotations (Annotations (ObjectMeta stored)) (Annotations (ObjectMeta new)))
            (LastAppliedConfig \<mapsto> s)"
    by (simp add: obj SetOriginalConfiguration_def copyStoredFields_def)
  with ser show ?thesis
    by (simp add: mergeAnnotations_def)
qed

theorem update_merges_annotations_except_snapshot_witness:
  "Annotations (ObjectMeta ex_sent) ''team'' = Some ''payments''
   \<and> Annotations (ObjectMeta ex_sent) ''redis.opstreelabs.in'' = Some ''true''
   \<and> Annotations (ObjectMeta ex_sent) LastAppliedConfig = Some ''new-snapshot''"
proof -
  have mem: "UpdateCall ''prod'' ex_sent
       \<in> set (snd (patchPodDisruptionBudget ex_env_present ex_stored ex_def ''prod''))"
    by (simp add: ex_patch_present)
  note t = update_merges_annotations_except_snapshot [OF mem]
  from t have "Annotations (ObjectMeta ex_sent) ''team'' = Some ''payments''"
    using ex_annotations by blast
  moreover from t have "Annotations (ObjectMeta ex_sent) ''redis.opstreelabs.in'' = Some ''true''"
    using ex_annotations by blast
  moreover from t have "Annotations (ObjectMeta ex_sent) LastAppliedConfig = Some ''new-snapshot''"
    by (auto simp: ex_env_defs)
  ultimately show ?thesis by simp
qed

subsection \<open>The disabled branch\<close>

text \<open>
  C7. With the budget disabled or not configured: if the fetch finds an object, the calls
  are the fetch and one delete, whose result is returned; if the fetch says not found,
  the fetch is the only call and the result is success; any other fetch error is
  returned, and the fetch is the only call.
\<close>

theorem reconcile_disabled:
  assumes "\<not> pdbEnabled cr"
  shows
    "(\<forall>stored. client_Get e (Namespace (cr_ObjectMeta cr)) (pdbName cr role) = Inr stored \<longrightarrow>
        ReconcileRedisPodDisruptionBudget e h cr role =
          (client_Delete e (Namespace (cr_ObjectMeta cr)) (pdbName cr role),
           [GetCall (Namespace (cr_ObjectMeta cr)) (pdbName cr role),
            DeleteCall (Namespace (cr_ObjectMeta cr)) (pdbName cr role)]))
     \<and> (\<forall>err. client_Get e (Namespace (cr_ObjectMeta cr)) (pdbName cr role) = Inl err
          \<and> IsNotFound err \<longrightarrow>
        ReconcileRedisPodDisruptionBudget e h cr role =
          (Inr (), [GetCall (Namespace (cr_ObjectMeta cr)) (pdbName cr role)]))
     \<and> (\<forall>err. client_Get e (Namespace (cr_ObjectMeta cr)) (pdbName cr role) = Inl err
          \<and> \<not> IsNotFound err \<longrightarrow>
        ReconcileRedisPodDisruptionBudget e h cr role =
          (Inl err, [GetCall (Namespace (cr_ObjectMeta cr)) (pdbName cr role)]))"
  by (simp add: reconcile_disabled_cases [OF assms])

theorem reconcile_disabled_witness:
  "ReconcileRedisPodDisruptionBudget ex_env_present ex_helpers ex_cr_disabled ''leader'' =
     (Inr (), [GetCall ''prod'' ''redis-leader'', DeleteCall ''prod'' ''redis-leader''])
   \<and> ReconcileRedisPodDisruptionBudget ex_env ex_helpers ex_cr_disabled ''leader'' =
     (Inr (), [GetCall ''prod'' ''redis-leader''])
   \<and> ReconcileRedisPodDisruptionBudget ex_env_timeout ex_helpers ex_cr_disabled ''leader'' =
     (Inl (BackendError ''timeout''), [GetCall ''prod'' ''redis-leader''])
   \<and> ReconcileRedisPodDisruptionBudget ex_env_present ex_helpers ex_cr_unconfigured ''leader'' =
     (Inr (), [GetCall ''prod'' ''redis-leader'', DeleteCall ''prod'' ''redis-leader''])"
  using reconcile_disabled [OF ex_disabled, of ex_env_present "''leader''" ex_helpers]
    reconcile_disabled [OF ex_unconfigured, of ex_env_present "''leader''" ex_helpers]
    reconcile_disabled [OF ex_disabled, of ex_env "''leader''" ex_helpers]
    reconcile_disabled [OF ex_disabled, of ex_env_timeout "''leader''" ex_helpers]
  by (simp add: ex_key ex_env_defs)

subsection \<open>Failure of the fetch\<close>

text \<open>
  C8, as stated, fails when the stamping fails too: the fetch fails with a timeout, the
  enabled branch stamps the desired object before it looks at the kind of the error, and
  the error of the stamping is returned in place of the timeout.
\<close>

theorem fetch_error_replaced_by_stamping_error:
  "GetCall ''prod'' ''redis-leader''
     \<in> set (snd (ReconcileRedisPodDisruptionBudget ex_env_timeout_unserializable ex_helpers ex_cr ''leader''))
   \<and> client_Get ex_env_timeout_unserializable ''prod'' ''redis-leader'' = Inl (BackendError ''timeout'')
   \<and> \<not> IsNotFound (BackendError ''timeout'')
   \<and> fst (ReconcileRedisPodDisruptionBudget ex_env_timeout_unserializable ex_helpers ex_cr ''leader'')
       \<noteq> Inl (BackendError ''timeout'')"
proof -
  have "client_Get ex_env_timeout_unserializable ''prod'' ''redis-leader'' =
          Inl (BackendError ''timeout'')"
    by (simp add: ex_env_defs)
  then show ?thesis
    by (simp add: ex_run_timeout)
qed

text \<open>
  C8, as amended. If the fetch fails with an error other than not found, the invocation
  makes no create, update or delete call; and it returns the fetch error unchanged
  whenever every stamping it attempted succeeded (the disabled branch attempts none).
\<close>

theorem fetch_failure_issues_no_write:
  assumes "GetCall ns name \<in> set (snd (ReconcileRedisPodDisruptionBudget e h cr role))"
    and "client_Get e ns name = Inl err" and "\<not> IsNotFound err"
  shows "writes (snd (ReconcileRedisPodDisruptionBudget e h cr role)) = []
       \<and> ((\<forall>obj. SetLastAppliedCall obj \<in> set (snd (ReconcileRedisPodDisruptionBudget e h cr role))
               \<longrightarrow> (\<exists>s. annotator_Serialize e obj = Inr s))
            \<longrightarrow> fst (ReconcileRedisPodDisruptionBudget e h cr role) = Inl err)"
proof (cases "pdbEnabled cr")
  case False
  with assms show ?thesis
    by (auto simp: reconcile_disabled_cases writes_def split: sum.splits)
next
  case True
  show ?thesis
  proof (cases "pdbDef h cr role")
    case (Inl perr)
    with True assms(1) show ?thesis
      by (simp add: ReconcileRedisPodDisruptionBudget_def)
  next
    case (Inr d)
    have run: "ReconcileRedisPodDisruptionBudget e h cr role = CreateOrUpdatePodDisruptionBudget e d"
      using True Inr by (rule reconcile_enabled)
    have key: "ns = Namespace (ObjectMeta d)" "name = Name (ObjectMeta d)"
      using assms(1) unfolding run
      by (auto simp: createOrUpdate_cases patch_cases split: sum.splits bool.splits if_splits)
    show ?thesis
      using assms(2,3) unfolding run key
      by (auto simp: createOrUpdate_cases writes_def split: sum.splits)
  qed
qed

theorem fetch_failure_issues_no_write_witness:
  "writes (snd (ReconcileRedisPodDisruptionBudget ex_env_timeout ex_helpers ex_cr ''leader'')) = []
   \<and> fst (ReconcileRedisPodDisruptionBudget ex_env_timeout ex_helpers ex_cr ''leader'') =
       Inl (BackendError ''timeout'')"
proof -
  have called: "GetCall ''prod'' ''redis-leader''
     \<in> set (snd (ReconcileRedisPodDisruptionBudget ex_env_timeout ex_helpers ex_cr ''leader''))"
    by (simp add: ex_run_timeout)
  have failed: "client_Get ex_env_timeout ''prod'' ''redis-leader'' = Inl (BackendError ''timeout'')"
    by (simp add: ex_env_defs)
  have other: "\<not> IsNotFound (BackendError ''timeout'')"
    by simp
  note t = fetch_failure_issues_no_write [OF called failed other]
  have "\<exists>s. annotator_Serialize ex_env_timeout obj = Inr s" for obj
    by (simp add: ex_env_defs)
  with t show ?thesis by blast
qed

subsection \<open>Failure of the stamping\<close>

text \<open>
  C9. If the invocation stamps an object and the serialisation of that object fails, the
  invocation returns that error and makes no create, update or delete call.
\<close>

theorem stamping_failure_aborts_before_any_write:
  assumes "SetLastAppliedCall obj \<in> set (snd (ReconcileRedisPodDisruptionBudget e h cr role))"
    and "annotator_Serialize e obj = Inl serr"
  shows "fst (ReconcileRedisPodDisruptionBudget e h cr role) = Inl serr
         \<and> writes (snd (ReconcileRedisPodDisruptionBudget e h cr role)) = []"
proof (cases "pdbEnabled cr")
  case False
  with assms(1) show ?thesis
    by (simp add: reconcile_disabled_cases split: sum.splits)
next
  case True
  show ?thesis
  proof (cases "pdbDef h cr role")
    case (Inl err)
    with True assms(1) show ?thesis
      by (simp add: ReconcileRedisPodDisruptionBudget_def)
  next
    case (Inr d)
    with True have "ReconcileRedisPodDisruptionBudget e h cr role = CreateOrUpdatePodDisruptionBudget e d"
      by (rule reconcile_enabled)
    with assms createOrUpdate_stamping_failure [of obj e d serr] show ?thesis
      by simp
  qed
qed

theorem stamping_failure_aborts_before_any_write_witness:
  "fst (ReconcileRedisPodDisruptionBudget ex_env_unserializable ex_helpers ex_cr ''leader'') =
     Inl (SerializationFailure ''marshal'')
   \<and> writes (snd (ReconcileRedisPodDisruptionBudget ex_env_unserializable ex_helpers ex_cr ''leader'')) = []
   \<and> fst (ReconcileRedisPodDisruptionBudget ex_env_present_unserializable ex_helpers ex_cr ''leader'') =
     Inl (SerializationFailure ''marshal'')
   \<and> writes (snd (ReconcileRedisPodDisruptionBudget ex_env_present_unserializable ex_helpers ex_cr
        ''leader'')) = []"
proof -
  have "SetLastAppliedCall ex_def
          \<in> set (snd (ReconcileRedisPodDisruptionBudget ex_env_unserializable ex_helpers ex_cr ''leader''))"
    by (simp add: ex_run_unserializable)
  moreover
  have "annotator_Serialize ex_env_unserializable ex_def = Inl (SerializationFailure ''marshal'')"
    by (simp add: ex_env_defs)
  ultimately have absent:
    "fst (ReconcileRedisPodDisruptionBudget ex_env_unserializable ex_helpers ex_cr ''leader'') =
       Inl (SerializationFailure ''marshal'')
     \<and> writes (snd (ReconcileRedisPodDisruptionBudget ex_env_unserializable ex_helpers ex_cr
          ''leader'')) = []"
    by (rule stamping_failure_aborts_before_any_write)
  have "SetLastAppliedCall (copyStoredFields ex_stored ex_def)
          \<in> set (snd (ReconcileRedisPodDisruptionBudget ex_env_present_unserializable ex_helpers ex_cr
                ''leader''))"
    by (simp add: ex_run_unserializable)
  moreover
  have "annotator_Serialize ex_env_present_unserializable (copyStoredFields ex_stored ex_def) =
           Inl (SerializationFailure ''marshal'')"
    by (simp add: ex_env_defs)
  ultimately have present:
    "fst (ReconcileRedisPodDisruptionBudget ex_env_present_unserializable ex_helpers ex_cr ''leader'') =
       Inl (SerializationFailure ''marshal'')
     \<and> writes (snd (ReconcileRedisPodDisruptionBudget ex_env_present_unserializable ex_helpers ex_cr
          ''leader'')) = []"
    by (rule stamping_failure_aborts_before_any_write)
  from absent present show ?thesis by simp
qed

subsection \<open>The role\<close>

text \<open>
  C10. For every role, the invocation takes its branch by the leader's budget
  configuration of the cluster: when that is set and enabled, the invocation is
  \<^verbatim>\<open>CreateOrUpdatePodDisruptionBudget\<close> on the desired definition for the role; when it
  is nil or not enabled, the invocation is the fetch, followed by the delete if an object
  was found. For every role, the two bounds of the desired definition are the leader's
  \<^verbatim>\<open>MinAvailable\<close> and \<^verbatim>\<open>MaxUnavailable\<close>, or the quorum of the cluster size when neither is
  set, and the definition cannot be built only when neither is set and the size is nil.
  The role gives the suffix of the name, the labels and the selector, and nothing else:
  the definition for another role is the same object with these three replaced.
\<close>

theorem role_leaves_decisions_unchanged:
  "(\<forall>p. leader_PodDisruptionBudget (RedisLeader (cr_Spec cr)) = Some p \<and> Enabled p \<longrightarrow>
       ReconcileRedisPodDisruptionBudget e h cr role =
         (case pdbDef h cr role of
            Inl err \<Rightarrow> (Inl err, [])
          | Inr d \<Rightarrow> CreateOrUpdatePodDisruptionBudget e d))
   \<and> (leader_PodDisruptionBudget (RedisLeader (cr_Spec cr)) = None
        \<or> (\<exists>p. leader_PodDisruptionBudget (RedisLeader (cr_Spec cr)) = Some p \<and> \<not> Enabled p) \<longrightarrow>
       ReconcileRedisPodDisruptionBudget e h cr role =
         (case client_Get e (Namespace (cr_ObjectMeta cr)) (Name (cr_ObjectMeta cr) @ ''-'' @ role) of
            Inr stored \<Rightarrow>
              (client_Delete e (Namespace (cr_ObjectMeta cr)) (Name (cr_ObjectMeta cr) @ ''-'' @ role),
               [GetCall (Namespace (cr_ObjectMeta cr)) (Name (cr_ObjectMeta cr) @ ''-'' @ role),
                DeleteCall (Namespace (cr_ObjectMeta cr)) (Name (cr_ObjectMeta cr) @ ''-'' @ role)])
          | Inl err \<Rightarrow>
              (if IsNotFound err then Inr () else Inl err,
               [GetCall (Namespace (cr_ObjectMeta cr)) (Name (cr_ObjectMeta cr) @ ''-'' @ role)])))
   \<and> (\<forall>p. leader_PodDisruptionBudget (RedisLeader (cr_Spec cr)) = Some p \<longrightarrow>
        (case pdbDef h cr role of
           Inl err \<Rightarrow>
             pdb_MinAvailable p = None \<and> pdb_MaxUnavailable p = None \<and> Size (cr_Spec cr) = None
         | Inr d \<Rightarrow>
             MaxUnavailable (Spec d) = map_option intstr_FromInt (pdb_MaxUnavailable p)
             \<and> MinAvailable (Spec d) =
                 (case pdb_MinAvailable p of
                    Some m \<Rightarrow> Some (intstr_FromInt m)
                  | None \<Rightarrow>
                      (case pdb_MaxUnavailable p of
                         Some m \<Rightarrow> None
                       | None \<Rightarrow> map_option (\<lambda>n. intstr_FromInt (int32_div n 2 + 1))
                                   (Size (cr_Spec cr))))
             \<and> Name (ObjectMeta d) = Name (cr_ObjectMeta cr) @ ''-'' @ role
             \<and> Namespace (ObjectMeta d) = Namespace (cr_ObjectMeta cr)
             \<and> Labels (ObjectMeta d) = getRedisLabels h (Name (cr_ObjectMeta cr)) ''cluster'' role
             \<and> Selector (Spec d) = [''app'' \<mapsto> Name (cr_ObjectMeta cr), ''role'' \<mapsto> role]))
   \<and> (\<forall>d. pdbDef h cr role = Inr d \<longrightarrow>
        pdbDef h cr role' =
          Inr (d\<lparr>ObjectMeta := (ObjectMeta d)
                    \<lparr>Name := Name (cr_ObjectMeta cr) @ ''-'' @ role',
                     Labels := getRedisLabels h (Name (cr_ObjectMeta cr)) ''cluster'' role'\<rparr>,
                  Spec := (Spec d)
                    \<lparr>Selector := [''app'' \<mapsto> Name (cr_ObjectMeta cr), ''role'' \<mapsto> role']\<rparr>\<rparr>))"
proof -
  let ?leader = "leader_PodDisruptionBudget (RedisLeader (cr_Spec cr))"
  have on: "ReconcileRedisPodDisruptionBudget e h cr role =
         (case pdbDef h cr role of
            Inl err \<Rightarrow> (Inl err, [])
          | Inr d \<Rightarrow> CreateOrUpdatePodDisruptionBudget e d)"
    if "?leader = Some p" "Enabled p" for p
    using that by (simp add: ReconcileRedisPodDisruptionBudget_def pdbEnabled_def)
  have off: "ReconcileRedisPodDisruptionBudget e h cr role =
         (case client_Get e (Namespace (cr_ObjectMeta cr)) (Name (cr_ObjectMeta cr) @ ''-'' @ role) of
            Inr stored \<Rightarrow>
              (client_Delete e (Namespace (cr_ObjectMeta cr)) (Name (cr_ObjectMeta cr) @ ''-'' @ role),
               [GetCall (Namespace (cr_ObjectMeta cr)) (Name (cr_ObjectMeta cr) @ ''-'' @ role),
                DeleteCall (Namespace (cr_ObjectMeta cr)) (Name (cr_ObjectMeta cr) @ ''-'' @ role)])
          | Inl err \<Rightarrow>
              (if IsNotFound err then Inr () else Inl err,
               [GetCall (Namespace (cr_ObjectMeta cr)) (Name (cr_ObjectMeta cr) @ ''-'' @ role)]))"
    if "?leader = None \<or> (\<exists>p. ?leader = Some p \<and> \<not> Enabled p)"
  proof -
    from that have "\<not> pdbEnabled cr"
      by (auto simp: pdbEnabled_def)
    then show ?thesis
      by (simp add: reconcile_disabled_cases pdbName_def split: sum.splits)
  qed
  have other: "pdbDef h cr role' =
          Inr (d\<lparr>ObjectMeta := (ObjectMeta d)
                    \<lparr>Name := Name (cr_ObjectMeta cr) @ ''-'' @ role',
                     Labels := getRedisLabels h (Name (cr_ObjectMeta cr)) ''cluster'' role'\<rparr>,
                  Spec := (Spec d)
                    \<lparr>Selector := [''app'' \<mapsto> Name (cr_ObjectMeta cr), ''role'' \<mapsto> role']\<rparr>\<rparr>)"
    if "pdbDef h cr role = Inr d" for d
    using pdbDef_role [OF that, of role'] by (simp add: pdbName_def LabelSelectors_def)
  from on off other pdbDef_bounds [where cr = cr and h = h and role = role] show ?thesis
    by blast
qed

theorem role_leaves_decisions_unchanged_witness:
  "(\<exists>d. pdbDef ex_helpers ex_cr ''follower'' = Inr d
      \<and> ReconcileRedisPodDisruptionBudget ex_env_present ex_helpers ex_cr ''follower'' =
          CreateOrUpdatePodDisruptionBudget ex_env_present d
      \<and> MinAvailable (Spec d) = Some \<lparr>Type = intstr_Int, IntVal = 2, StrVal = []\<rparr>
      \<and> MaxUnavailable (Spec d) = None
      \<and> Name (ObjectMeta d) = ''redis-follower''
      \<and> Selector (Spec d) = [''app'' \<mapsto> ''redis'', ''role'' \<mapsto> ''follower''])
   \<and> (\<exists>d. pdbDef ex_helpers ex_cr_bounded ''follower'' = Inr d
      \<and> MinAvailable (Spec d) = Some \<lparr>Type = intstr_Int, IntVal = 1, StrVal = []\<rparr>
      \<and> MaxUnavailable (Spec d) = None)
   \<and> ReconcileRedisPodDisruptionBudget ex_env_present ex_helpers ex_cr_disabled ''follower'' =
       (Inr (), [GetCall ''prod'' ''redis-follower'', DeleteCall ''prod'' ''redis-follower''])"
proof -
  note t = role_leaves_decisions_unchanged
  have p: "Enabled (ex_params None None True)" "\<not> Enabled (ex_params None None False)"
    "pdb_MinAvailable (ex_params None None True) = None"
    "pdb_MaxUnavailable (ex_params None None True) = None"
    "pdb_MinAvailable (ex_params (Some 1) None True) = Some 1"
    "pdb_MaxUnavailable (ex_params (Some 1) None True) = None"
    by (simp_all add: ex_params_def)
  have cr: "Name (cr_ObjectMeta ex_cr) = ''redis''" "Size (cr_Spec ex_cr) = Some 3"
    "Name (cr_ObjectMeta ex_cr_disabled) = ''redis''"
    "Namespace (cr_ObjectMeta ex_cr_disabled) = ''prod''"
    by (simp_all add: ex_cr_def ex_cr_disabled_def ex_cluster_def ex_meta_def)
  from t [of ex_cr ex_env_present ex_helpers "''leader''" "''follower''"] ex_pdbDef
  obtain d where d: "pdbDef ex_helpers ex_cr ''follower'' = Inr d"
    by blast
  from t [of ex_cr ex_env_present ex_helpers "''follower''"] ex_quorum p(1) d
  have run: "ReconcileRedisPodDisruptionBudget ex_env_present ex_helpers ex_cr ''follower'' =
          CreateOrUpdatePodDisruptionBudget ex_env_present d"
    by simp
  from t [of ex_cr ex_env_present ex_helpers "''follower''"] ex_quorum d
  have "MinAvailable (Spec d) = Some \<lparr>Type = intstr_Int, IntVal = 2, StrVal = []\<rparr>
      \<and> MaxUnavailable (Spec d) = None
      \<and> Name (ObjectMeta d) = ''redis-follower''
      \<and> Selector (Spec d) = [''app'' \<mapsto> ''redis'', ''role'' \<mapsto> ''follower'']"
    by (simp add: p cr intstr_FromInt_def int32_quorum_3)
  with d run have a: "\<exists>d. pdbDef ex_helpers ex_cr ''follower'' = Inr d
      \<and> ReconcileRedisPodDisruptionBudget ex_env_present ex_helpers ex_cr ''follower'' =
          CreateOrUpdatePodDisruptionBudget ex_env_present d
      \<and> MinAvailable (Spec d) = Some \<lparr>Type = intstr_Int, IntVal = 2, StrVal = []\<rparr>
      \<and> MaxUnavailable (Spec d) = None
      \<and> Name (ObjectMeta d) = ''redis-follower''
      \<and> Selector (Spec d) = [''app'' \<mapsto> ''redis'', ''role'' \<mapsto> ''follower'']"
    by blast
  have b: "\<exists>d. pdbDef ex_helpers ex_cr_bounded ''follower'' = Inr d
      \<and> MinAvailable (Spec d) = Some \<lparr>Type = intstr_Int, IntVal = 1, StrVal = []\<rparr>
      \<and> MaxUnavailable (Spec d) = None"
  proof (cases "pdbDef ex_helpers ex_cr_bounded ''follower''")
    case (Inl err)
    with t [of ex_cr_bounded ex_env_present ex_helpers "''follower''"] ex_bounded
    have "pdb_MinAvailable (ex_params (Some 1) None True) = None"
      by simp
    with p(5) show ?thesis
      by simp
  next
    case (Inr d')
    with t [of ex_cr_bounded ex_env_present ex_helpers "''follower''"] ex_bounded
    have "MinAvailable (Spec d') = Some \<lparr>Type = intstr_Int, IntVal = 1, StrVal = []\<rparr>
      \<and> MaxUnavailable (Spec d') = None"
      by (simp add: p intstr_FromInt_def)
    with Inr show ?thesis
      by blast
  qed
  have got: "client_Get ex_env_present ''prod'' ''redis-follower'' = Inr ex_stored"
    "client_Delete ex_env_present ''prod'' ''redis-follower'' = Inr ()"
    by (simp_all add: ex_env_present_def ex_env_def)
  from t [of ex_cr_disabled ex_env_present ex_helpers "''follower''"] ex_off p(2)
  have c: "ReconcileRedisPodDisruptionBudget ex_env_present ex_helpers ex_cr_disabled ''follower'' =
       (Inr (), [GetCall ''prod'' ''redis-follower'', DeleteCall ''prod'' ''redis-follower''])"
    by (simp add: cr got)
  from a b c show ?thesis by blast
qed

end
